theory Spec2Isabelle
  imports Main
begin

section \<open>JavaScript values, errors and promises\<close>

text \<open>
  The values that flow through \<open>Auth.js\<close> and \<open>Nest.js\<close> are JSON values (what
  \<open>JSON.parse\<close> returns) together with \<open>undefined\<close>. Numbers are restricted to the
  safe integers, those of magnitude below \<open>2^53\<close>: each is a number of JavaScript and
  prints in plain decimal. An object is the association list of its own properties.
\<close>

typedef safe_integer = "{i :: int. - (2 ^ 53) < i \<and> i < 2 ^ 53}"
  morphisms int_of_safe safe_of_int
  by (rule exI [of _ 0]) simp

datatype jsval =
    JUndefined
  | JNull
  | JBool bool
  | JNum safe_integer
  | JStr string
  | JArr "jsval list"
  | JObj "(string \<times> jsval) list"

text \<open>
  The exceptions of the two files: \<open>new Error(msg)\<close> thrown by the guards, the built-in
  \<open>TypeError\<close>, \<open>ReferenceError\<close> and \<open>SyntaxError\<close>, and the two rejections of
  \<open>request-promise-native\<close> (transport failure, status outside 2xx).
\<close>

datatype js_error =
    JsError string
  | TypeError string
  | ReferenceError string
  | SyntaxError string
  | RequestError string
  | StatusCodeError nat

datatype promise = Resolved jsval | Rejected js_error

text \<open>How a call of a plain (not \<open>async\<close>) function ends.\<close>

datatype 'a completion = Throw js_error | Return 'a

text \<open>JavaScript's \<open>ToBoolean\<close>, which \<open>if (x)\<close> and \<open>!x\<close> apply.\<close>

fun truthy :: "jsval \<Rightarrow> bool" where
  "truthy JUndefined = False"
| "truthy JNull = False"
| "truthy (JBool b) = b"
| "truthy (JNum n) = (int_of_safe n \<noteq> 0)"
| "truthy (JStr s) = (s \<noteq> [])"
| "truthy (JArr xs) = True"
| "truthy (JObj fs) = True"

fun show_nat :: "nat \<Rightarrow> string" where
  "show_nat n =
     (if n < 10 then [''0123456789'' ! n]
      else show_nat (n div 10) @ [''0123456789'' ! (n mod 10)])"

definition show_int :: "int \<Rightarrow> string" where
  "show_int i = (if i < 0 then CHR ''-'' # show_nat (nat (- i)) else show_nat (nat i))"

fun join_comma :: "string list \<Rightarrow> string" where
  "join_comma [] = []"
| "join_comma [s] = s"
| "join_comma (s # t # ss) = s @ '','' @ join_comma (t # ss)"

text \<open>The first exception of a list of results, or all their values.\<close>

fun collect :: "('e + 'a) list \<Rightarrow> 'e + 'a list" where
  "collect [] = Inr []"
| "collect (Inl e # rs) = Inl e"
| "collect (Inr x # rs) = (case collect rs of Inl e \<Rightarrow> Inl e | Inr xs \<Rightarrow> Inr (x # xs))"

text \<open>
  JavaScript's \<open>ToString\<close>, which a template literal \<open>`${x}`\<close> applies. An array
  joins the strings of its elements with commas, from left to right, \<open>null\<close> and
  \<open>undefined\<close> elements printing as nothing. An object is converted by its
  \<open>toString\<close> method: the one of \<open>Object.prototype\<close> answers \<open>[object Object]\<close>, but
  an own property \<open>toString\<close> hides it, and since no JSON value is callable (and
  \<open>valueOf\<close> returns no primitive) the conversion then throws \<open>TypeError\<close>.
\<close>

fun to_string :: "jsval \<Rightarrow> js_error + string" where
  "to_string JUndefined = Inr ''undefined''"
| "to_string JNull = Inr ''null''"
| "to_string (JBool b) = Inr (if b then ''true'' else ''false'')"
| "to_string (JNum n) = Inr (show_int (int_of_safe n))"
| "to_string (JStr s) = Inr s"
| "to_string (JArr xs) =
     (case collect (map (\<lambda>x. if x = JUndefined \<or> x = JNull then Inr [] else to_string x) xs) of
        Inl e \<Rightarrow> Inl e
      | Inr ss \<Rightarrow> Inr (join_comma ss))"
| "to_string (JObj fs) =
     (if ''toString'' \<in> set (map fst fs)
      then Inl (TypeError ''Cannot convert object to primitive value'')
      else Inr ''[object Object]'')"

text \<open>
  The destructuring \<open>const { k } = v\<close>, for a property name \<open>k\<close> that is no built-in
  property of strings, arrays, numbers and booleans (as \<open>access_token\<close> and \<open>jwt\<close>):
  \<open>null\<close> and \<open>undefined\<close> cannot be destructured, an object yields its property or
  \<open>undefined\<close>, every other value yields \<open>undefined\<close>.
\<close>

fun destructure :: "string \<Rightarrow> jsval \<Rightarrow> js_error + jsval" where
  "destructure k JUndefined =
     Inl (TypeError (''Cannot destructure property '' @ k @ '' of undefined''))"
| "destructure k JNull =
     Inl (TypeError (''Cannot destructure property '' @ k @ '' of null''))"
| "destructure k (JObj fs) = Inr (case map_of fs k of None \<Rightarrow> JUndefined | Some v \<Rightarrow> v)"
| "destructure k v = Inr JUndefined"

text \<open>
  Indexing an array, \<open>xs[i]\<close>: an index outside \<open>0 .. length - 1\<close> (also \<open>-1\<close>) names no
  property of the array and reads as \<open>undefined\<close>.
\<close>

definition js_index :: "jsval list \<Rightarrow> int \<Rightarrow> jsval" where
  "js_index xs i = (if 0 \<le> i \<and> i < int (length xs) then xs ! nat i else JUndefined)"

section \<open>The network\<close>

text \<open>
  What the remote end answers to one call of \<open>request(options)\<close>: the transport
  fails, the status is outside 2xx, or a body arrives. The body carries its text and
  what \<open>JSON.parse\<close> makes of that text (\<open>None\<close>: it throws \<open>SyntaxError\<close>).
\<close>

datatype reply =
    NetworkError string
  | StatusError nat
  | Body string "jsval option"

datatype payload =
    NoPayload
  | Form "(string \<times> jsval) list"
  | JsonBody "(string \<times> jsval) list"

record request =
  http_method :: string
  url :: string
  headers :: "(string \<times> jsval) list"
  payload :: payload

text \<open>\<open>await request(options)\<close>: the promise of \<open>request-promise-native\<close>.\<close>

fun await_request :: "reply \<Rightarrow> js_error + reply" where
  "await_request (NetworkError m) = Inl (RequestError m)"
| "await_request (StatusError c) = Inl (StatusCodeError c)"
| "await_request (Body t j) = Inr (Body t j)"

fun JSON_parse :: "reply \<Rightarrow> js_error + jsval" where
  "JSON_parse (Body t (Some v)) = Inr v"
| "JSON_parse (Body t None) = Inl (SyntaxError t)"
| "JSON_parse r = Inl (SyntaxError [])"

text \<open>
  \<open>JSON.stringify\<close> of an object literal serialises its members in order and leaves
  out those whose value is \<open>undefined\<close>. The body is kept as the members serialised.
\<close>

definition JSON_stringify :: "(string \<times> jsval) list \<Rightarrow> payload" where
  "JSON_stringify members = JsonBody (filter (\<lambda>(k, v). v \<noteq> JUndefined) members)"

text \<open>The exchange failures the specification names.\<close>

fun exchange_failure :: "reply \<Rightarrow> bool" where
  "exchange_failure (NetworkError m) = True"
| "exchange_failure (StatusError c) = True"
| "exchange_failure (Body t None) = True"
| "exchange_failure (Body t (Some v)) = False"

text \<open>
  The exception such a reply raises: the rejection of \<open>request\<close>, or the
  \<open>SyntaxError\<close> of \<open>JSON.parse\<close>.
\<close>

fun failure_exception :: "reply \<Rightarrow> js_error" where
  "failure_exception (NetworkError m) = RequestError m"
| "failure_exception (StatusError c) = StatusCodeError c"
| "failure_exception (Body t j) = SyntaxError t"

section \<open>Auth.js\<close>

text \<open>
  The module \<open>constants\<close> and the process environment are not part of the sources
  read here; their values are parameters.
\<close>

record config =
  OAUTH_URL :: string
  JWT_TOKEN_URL :: string
  NEXUS_HOST :: string
  EVENTS_ENDPOINT :: string
  LATEST_IMAGE_ENDPOINT :: string
  SNAPSHOT_ENDPOINT :: string

record process_env =
  API_KEY :: jsval
  CLIENT_ID :: jsval
  REFRESH_TOKEN :: jsval

text \<open>The fields \<open>_accessToken\<close> and \<open>_jwtToken\<close> of an instance.\<close>

record nest =
  priv_accessToken :: jsval
  priv_jwtToken :: jsval

definition constructor_Auth :: nest where
  "constructor_Auth = \<lparr>priv_accessToken = JNull, priv_jwtToken = JNull\<rparr>"

definition accessToken :: "nest \<Rightarrow> jsval" where
  "accessToken this = priv_accessToken this"

definition jwtToken :: "nest \<Rightarrow> jsval" where
  "jwtToken this = priv_jwtToken this"

text \<open>
  What a call leaves behind: its outcome, the instance after it, the requests it
  issued and the lines it wrote with \<open>console.log\<close> (message and logged exception).
\<close>

record 'r effect =
  outcome :: 'r
  object :: nest
  requests :: "request list"
  console :: "(string \<times> js_error) list"

definition oauth_options :: "config \<Rightarrow> process_env \<Rightarrow> request" where
  "oauth_options cfg env =
     \<lparr>http_method = ''POST'',
      url = OAUTH_URL cfg,
      headers =
        [(''Content-Type'', JStr ''application/x-www-form-urlencoded; charset=UTF-8''),
         (''Host'', JStr ''oauth2.googleapis.com'')],
      payload =
        Form [(''refresh_token'', REFRESH_TOKEN env),
              (''client_id'', CLIENT_ID env),
              (''grant_type'', JStr ''refresh_token'')]\<rparr>"

text \<open>
  The body of a \<open>try\<close> block \<open>const { k } = JSON.parse(await request(options))\<close>.
\<close>

definition exchange :: "string \<Rightarrow> reply \<Rightarrow> js_error + jsval" where
  "exchange k reply =
     (case await_request reply of
        Inl e \<Rightarrow> Inl e
      | Inr response \<Rightarrow>
          (case JSON_parse response of
             Inl e \<Rightarrow> Inl e
           | Inr v \<Rightarrow> destructure k v))"

definition fetchOAuthToken :: "config \<Rightarrow> process_env \<Rightarrow> nest \<Rightarrow> reply \<Rightarrow> promise effect" where
  "fetchOAuthToken cfg env this reply =
     (if truthy (priv_accessToken this)
      then \<lparr>outcome = Resolved (priv_accessToken this), object = this,
            requests = [], console = []\<rparr>
      else
        let options = oauth_options cfg env in
        case exchange ''access_token'' reply of
          Inr access_token \<Rightarrow>
            \<lparr>outcome = Resolved access_token,
             object = this\<lparr>priv_accessToken := access_token\<rparr>,
             requests = [options], console = []\<rparr>
        | Inl e \<Rightarrow>
            \<lparr>outcome = Resolved JUndefined, object = this, requests = [options],
             console = [(''[ERROR] Failed to retrieve OAuth token from Nest API: '', e)]\<rparr>)"

text \<open>
  The object literal \<open>options\<close> of \<open>fetchJwtToken\<close>, built before the \<open>try\<close> block:
  the template literal of the \<open>Authorization\<close> header can throw.
\<close>

definition jwt_options :: "config \<Rightarrow> process_env \<Rightarrow> jsval \<Rightarrow> js_error + request" where
  "jwt_options cfg env accessToken' =
     (case to_string accessToken' of
        Inl e \<Rightarrow> Inl e
      | Inr bearer \<Rightarrow>
          Inr \<lparr>http_method = ''POST'',
               url = JWT_TOKEN_URL cfg,
               headers =
                 [(''x-goog-api-key'', API_KEY env),
                  (''Content-Type'', JStr ''application/json''),
                  (''Accept'', JStr ''application/json''),
                  (''Host'', JStr ''nestauthproxyservice-pa.googleapis.com''),
                  (''Authorization'', JStr (''Bearer '' @ bearer))],
               payload =
                 JSON_stringify
                   [(''expire_after'', JStr ''3600s''),
                    (''policy_id'', JStr ''authproxy-oauth-policy''),
                    (''google_oauth_access_token'', accessToken'),
                    (''embed_google_oauth_access_token'', JStr ''true'')]\<rparr>)"

text \<open>
  \<open>async fetchJwtToken(accessToken)\<close>. An exception of building \<open>options\<close> is outside
  the \<open>try\<close> block and rejects the promise.
\<close>

definition fetchJwtToken ::
  "config \<Rightarrow> process_env \<Rightarrow> jsval \<Rightarrow> nest \<Rightarrow> reply \<Rightarrow> promise effect" where
  "fetchJwtToken cfg env accessToken' this reply =
     (if truthy (priv_jwtToken this)
      then \<lparr>outcome = Resolved (priv_jwtToken this), object = this,
            requests = [], console = []\<rparr>
      else
        case jwt_options cfg env accessToken' of
          Inl e \<Rightarrow>
            \<lparr>outcome = Rejected e, object = this, requests = [], console = []\<rparr>
        | Inr options \<Rightarrow>
            (case exchange ''jwt'' reply of
               Inr jwt \<Rightarrow>
                 \<lparr>outcome = Resolved jwt,
                  object = this\<lparr>priv_jwtToken := jwt\<rparr>,
                  requests = [options], console = []\<rparr>
             | Inl e \<Rightarrow>
                 \<lparr>outcome = Resolved JUndefined, object = this, requests = [options],
                  console = [(''[ERROR] Failed to retrieve JWT token from Nest API: '', e)]\<rparr>))"

text \<open>
  Calls made one after the other on the same instance, each completing before the next
  starts: every call runs on the instance the previous one left.
\<close>

fun call_sequence :: "('x \<Rightarrow> nest \<Rightarrow> 'r effect) \<Rightarrow> nest \<Rightarrow> 'x list \<Rightarrow> 'r effect list" where
  "call_sequence f this [] = []"
| "call_sequence f this (x # xs) =
     (let e = f x this in e # call_sequence f (object e) xs)"

section \<open>Nest.js: the resource client\<close>

text \<open>
  The names an instance of \<open>Nest\<close> answers to: its own fields, the members of
  \<open>Nest.prototype\<close> and those of \<open>Auth.prototype\<close>.
\<close>

definition own_properties :: "string list" where
  "own_properties =
     [''_accessToken'', ''_jwtToken'', ''_latestSnapshotObservable'', ''_eventsObservable'']"

definition Nest_prototype :: "string list" where
  "Nest_prototype =
     [''constructor'', ''init'', ''subscribeToLatestSnapshot'', ''subscribeToEvents'',
      ''getEvents'', ''getLatestSnapshot'', ''getSnapshot'']"

definition Auth_prototype :: "string list" where
  "Auth_prototype =
     [''constructor'', ''accessToken'', ''jwtToken'', ''fetchOAuthToken'', ''fetchJwtToken'']"

text \<open>
  The call \<open>this.refreshTokens()\<close>. Neither class defines a member of that name, so the
  property reads as \<open>undefined\<close> and calling it throws.
\<close>

definition this_refreshTokens :: "nest \<Rightarrow> js_error + nest" where
  "this_refreshTokens this = Inl (TypeError ''this.refreshTokens is not a function'')"

text \<open>
  The object literal \<open>options\<close> of \<open>getEvents\<close>, built after the guard and before the
  \<open>try\<close> block: the template literal of the \<open>Authorization\<close> header can throw.
\<close>

definition events_options :: "config \<Rightarrow> nest \<Rightarrow> js_error + request" where
  "events_options cfg this =
     (case to_string (jwtToken this) of
        Inl e \<Rightarrow> Inl e
      | Inr basic \<Rightarrow>
          Inr \<lparr>http_method = ''GET'',
               url = NEXUS_HOST cfg @ EVENTS_ENDPOINT cfg,
               headers = [(''Authorization'', JStr (''Basic '' @ basic))],
               payload = NoPayload\<rparr>)"

text \<open>
  \<open>new Promise((res, rej) => request(options).then(response => res(JSON.parse(response)))
  .catch(err => rej(err)))\<close>: constructing the promise never throws (an exception of
  the executor rejects the promise); the promise settles with the parsed body or with
  the exception of \<open>request\<close> or \<open>JSON.parse\<close>.
\<close>

definition new_Promise_events :: "reply \<Rightarrow> js_error + promise" where
  "new_Promise_events reply =
     Inr (case await_request reply of
            Inl err \<Rightarrow> Rejected err
          | Inr response \<Rightarrow>
              (case JSON_parse response of
                 Inl err \<Rightarrow> Rejected err
               | Inr v \<Rightarrow> Resolved v))"

text \<open>
  \<open>getEvents(start = null, end = null)\<close>. It returns the promise, or \<open>undefined\<close>
  (\<open>None\<close>) when it leaves through the \<open>catch\<close> clause.
\<close>

definition getEvents ::
  "config \<Rightarrow> jsval \<Rightarrow> jsval \<Rightarrow> nest \<Rightarrow> reply \<Rightarrow> promise option completion effect" where
  "getEvents cfg start end' this reply =
     (if \<not> truthy (jwtToken this)
      then \<lparr>outcome = Throw (JsError ''Access token is null or undefined call: #fetchAccessToken() to retrieve new OAuth token.''),
            object = this, requests = [], console = []\<rparr>
      else
        case events_options cfg this of
          Inl e \<Rightarrow>
            \<lparr>outcome = Throw e, object = this, requests = [], console = []\<rparr>
        | Inr options \<Rightarrow>
            (case new_Promise_events reply of
               Inr p \<Rightarrow>
                 \<lparr>outcome = Return (Some p), object = this, requests = [options],
                  console = []\<rparr>
             | Inl e \<Rightarrow>
                 (let line = (''[ERROR] Failed to retrieve events from the Nest API Refreshing OAuth & JWT Tokens: '', e) in
                  case this_refreshTokens this of
                    Inl e' \<Rightarrow>
                      \<lparr>outcome = Throw e', object = this, requests = [options],
                       console = [line]\<rparr>
                  | Inr this' \<Rightarrow>
                      \<lparr>outcome = Return None, object = this', requests = [options],
                       console = [line]\<rparr>)))"

definition latest_options :: "config \<Rightarrow> nest \<Rightarrow> js_error + request" where
  "latest_options cfg this =
     (case to_string (jwtToken this) of
        Inl e \<Rightarrow> Inl e
      | Inr basic \<Rightarrow>
          Inr \<lparr>http_method = ''GET'',
               url = NEXUS_HOST cfg @ LATEST_IMAGE_ENDPOINT cfg,
               headers = [(''Authorization'', JStr (''Basic '' @ basic))],
               payload = NoPayload\<rparr>)"

text \<open>
  \<open>async getLatestSnapshot()\<close>: no guard on the token; the body of the response is
  returned as it arrived. An exception of building \<open>options\<close> is outside the \<open>try\<close>
  block and rejects the promise.
\<close>

definition getLatestSnapshot :: "config \<Rightarrow> nest \<Rightarrow> reply \<Rightarrow> promise effect" where
  "getLatestSnapshot cfg this reply =
     (case latest_options cfg this of
        Inl e \<Rightarrow>
          \<lparr>outcome = Rejected e, object = this, requests = [], console = []\<rparr>
      | Inr options \<Rightarrow>
          (case await_request reply of
             Inr response \<Rightarrow>
               \<lparr>outcome = Resolved (case response of Body t j \<Rightarrow> JStr t | _ \<Rightarrow> JUndefined),
                object = this, requests = [options], console = []\<rparr>
           | Inl e \<Rightarrow>
               (let line = (''[ERROR] Failed to retrieve snapshots from the Nest API Refreshing OAuth & JWT Tokens: '', e) in
                case this_refreshTokens this of
                  Inl e' \<Rightarrow>
                    \<lparr>outcome = Rejected e', object = this, requests = [options],
                     console = [line]\<rparr>
                | Inr this' \<Rightarrow>
                    \<lparr>outcome = Resolved JUndefined, object = this', requests = [options],
                     console = [line]\<rparr>)))"

section \<open>Nest.js: the event feed\<close>

text \<open>
  An identifier is looked up in the scope of the function that mentions it; a name
  bound nowhere raises \<open>ReferenceError\<close>.
\<close>

definition resolve_identifier :: "(string \<times> 'a) list \<Rightarrow> string \<Rightarrow> js_error + 'a" where
  "resolve_identifier scope x =
     (case map_of scope x of
        None \<Rightarrow> Inl (ReferenceError (x @ '' is not defined''))
      | Some v \<Rightarrow> Inr v)"

text \<open>
  The comparator given to \<open>distinctUntilChanged\<close>,
  \<open>(prevEvents, currEvents) => currEvents.length === lastEvents.length\<close>.
  Its scope binds its two parameters; the constructor and the module around it bind no
  \<open>lastEvents\<close>. The left operand is evaluated first.
\<close>

definition comparator :: "jsval list \<Rightarrow> jsval list \<Rightarrow> js_error + bool" where
  "comparator prevEvents currEvents =
     (let scope = [(''prevEvents'', prevEvents), (''currEvents'', currEvents)] in
      case resolve_identifier scope ''currEvents'' of
        Inl e \<Rightarrow> Inl e
      | Inr c \<Rightarrow>
          (case resolve_identifier scope ''lastEvents'' of
             Inl e \<Rightarrow> Inl e
           | Inr l \<Rightarrow> Inr (length c = length l)))"

text \<open>
  The state of one subscription to the pipeline: what \<open>distinctUntilChanged\<close> holds
  (\<open>hasKey\<close>, \<open>key\<close>) and whether the pipeline has ended with an error or a completion.
\<close>

record feed =
  hasKey :: bool
  key :: "jsval list"
  ended :: bool

definition new_feed :: feed where
  "new_feed = \<lparr>hasKey = False, key = [], ended = False\<rparr>"

datatype notification = OnNext jsval | OnError js_error | OnComplete

text \<open>
  \<open>distinctUntilChanged(compare)\<close> on one value: the first value passes without a
  comparison; later ones are compared with the key, pass when \<open>compare\<close> returns false
  (and become the key), are dropped when it returns true, and an exception of
  \<open>compare\<close> is sent down as an error.
\<close>

definition distinctUntilChanged :: "feed \<Rightarrow> jsval list \<Rightarrow> (js_error + bool) \<times> feed" where
  "distinctUntilChanged f events =
     (if hasKey f
      then (case comparator (key f) events of
              Inl e \<Rightarrow> (Inl e, f)
            | Inr same \<Rightarrow> if same then (Inr False, f) else (Inr True, f\<lparr>key := events\<rparr>))
      else (Inr True, f\<lparr>hasKey := True, key := events\<rparr>))"

text \<open>The projection \<open>map(events => events[events.length - 1])\<close>.\<close>

definition map_newest :: "jsval list \<Rightarrow> jsval" where
  "map_newest events = js_index events (int (length events) - 1)"

text \<open>
  One tick of \<open>_eventsObservable\<close>, the fetch it starts having settled before the next
  tick: what the subscribers receive, the pipeline and the instance after it and the
  requests issued. The events endpoint answers with a JSON array; a body that parses to
  another value is outside this model (\<open>None\<close>).
\<close>

record tick =
  delivered :: "notification list"
  feed_after :: feed
  instance_after :: nest
  fetches :: "request list"

definition events_tick :: "config \<Rightarrow> nest \<Rightarrow> feed \<Rightarrow> reply \<Rightarrow> tick option" where
  "events_tick cfg this f reply =
     (if ended f
      then Some \<lparr>delivered = [], feed_after = f, instance_after = this, fetches = []\<rparr>
      else
        let e = getEvents cfg JNull JNull this reply;
            fail = (\<lambda>err. Some \<lparr>delivered = [OnError err], feed_after = f\<lparr>ended := True\<rparr>,
                                instance_after = object e, fetches = requests e\<rparr>)
        in
        case outcome e of
          Throw err \<Rightarrow> fail err
        | Return None \<Rightarrow>
            fail (TypeError ''You provided undefined where a stream was expected.'')
        | Return (Some (Rejected err)) \<Rightarrow> fail err
        | Return (Some (Resolved (JArr events))) \<Rightarrow>
            (if \<not> (int (length events) \<ge> 0)
             then Some \<lparr>delivered = [OnComplete], feed_after = f\<lparr>ended := True\<rparr>,
                        instance_after = object e, fetches = requests e\<rparr>
             else
               case distinctUntilChanged f events of
                 (Inl err, f') \<Rightarrow>
                   Some \<lparr>delivered = [OnError err], feed_after = f'\<lparr>ended := True\<rparr>,
                         instance_after = object e, fetches = requests e\<rparr>
               | (Inr passes, f') \<Rightarrow>
                   Some \<lparr>delivered = (if passes then [OnNext (map_newest events)] else []),
                         feed_after = f', instance_after = object e,
                         fetches = requests e\<rparr>)
        | Return (Some (Resolved v)) \<Rightarrow> None)"

text \<open>
  Ticks one after the other on one subscription: what each tick delivers.
\<close>

fun events_ticks :: "config \<Rightarrow> nest \<Rightarrow> feed \<Rightarrow> reply list \<Rightarrow> notification list list option" where
  "events_ticks cfg this f [] = Some []"
| "events_ticks cfg this f (r # rs) =
     (case events_tick cfg this f r of
        None \<Rightarrow> None
      | Some t \<Rightarrow>
          (case events_ticks cfg (instance_after t) (feed_after t) rs of
             None \<Rightarrow> None
           | Some ds \<Rightarrow> Some (delivered t # ds)))"

section \<open>Concrete inputs\<close>

definition cfg0 :: config where
  "cfg0 = \<lparr>OAUTH_URL = ''https://oauth2.googleapis.com/token'',
           JWT_TOKEN_URL = ''https://nestauthproxyservice-pa.googleapis.com/v1/issue_jwt'',
           NEXUS_HOST = ''https://nexusapi.example'',
           EVENTS_ENDPOINT = ''/events'',
           LATEST_IMAGE_ENDPOINT = ''/latest'',
           SNAPSHOT_ENDPOINT = ''/snapshot/''\<rparr>"

definition env0 :: process_env where
  "env0 = \<lparr>API_KEY = JStr ''key'', CLIENT_ID = JStr ''client'', REFRESH_TOKEN = JStr ''refresh''\<rparr>"

section \<open>The credential store\<close>

lemma map_constant:
  "(\<forall>e \<in> set xs. f e = c) \<Longrightarrow> map f xs = replicate (length xs) c"
  by (induction xs) simp_all

lemma cached_access_token_calls:
  "truthy (priv_accessToken this) \<Longrightarrow>
   e \<in> set (call_sequence (\<lambda>r s. fetchOAuthToken cfg env s r) this rs) \<Longrightarrow>
   outcome e = Resolved (priv_accessToken this) \<and> requests e = [] \<and> object e = this"
proof (induction rs arbitrary: this)
  case Nil
  then show ?case by simp
next
  case (Cons r rs)
  have hit: "fetchOAuthToken cfg env this r =
      \<lparr>outcome = Resolved (priv_accessToken this), object = this, requests = [], console = []\<rparr>"
    using Cons.prems(1) by (simp add: fetchOAuthToken_def)
  from Cons.prems(2) consider
      "e = fetchOAuthToken cfg env this r"
    | "e \<in> set (call_sequence (\<lambda>r s. fetchOAuthToken cfg env s r) this rs)"
    by (auto simp: Let_def hit)
  then show ?case
  proof cases
    case 1
    then show ?thesis by (simp add: hit)
  next
    case 2
    then show ?thesis using Cons.IH Cons.prems(1) by blast
  qed
qed

lemma cached_session_token_calls:
  "truthy (priv_jwtToken this) \<Longrightarrow>
   e \<in> set (call_sequence (\<lambda>(a, r) s. fetchJwtToken cfg env a s r) this xs) \<Longrightarrow>
   outcome e = Resolved (priv_jwtToken this) \<and> requests e = [] \<and> object e = this"
proof (induction xs arbitrary: this)
  case Nil
  then show ?case by simp
next
  case (Cons x xs)
  obtain a r where x: "x = (a, r)" by (cases x)
  have hit: "fetchJwtToken cfg env a this r =
      \<lparr>outcome = Resolved (priv_jwtToken this), object = this, requests = [], console = []\<rparr>"
    using Cons.prems(1) by (simp add: fetchJwtToken_def)
  from Cons.prems(2) consider
      "e = fetchJwtToken cfg env a this r"
    | "e \<in> set (call_sequence (\<lambda>(a, r) s. fetchJwtToken cfg env a s r) this xs)"
    by (auto simp: Let_def hit x)
  then show ?case
  proof cases
    case 1
    then show ?thesis by (simp add: hit)
  next
    case 2
    then show ?thesis using Cons.IH Cons.prems(1) by blast
  qed
qed

lemma access_token_success_is_cached:
  "outcome (fetchOAuthToken cfg env this r) = Resolved tok \<Longrightarrow> truthy tok \<Longrightarrow>
   priv_accessToken (object (fetchOAuthToken cfg env this r)) = tok"
  by (auto simp: fetchOAuthToken_def Let_def split: if_splits sum.splits)

lemma session_token_success_is_cached:
  "outcome (fetchJwtToken cfg env a this r) = Resolved tok \<Longrightarrow> truthy tok \<Longrightarrow>
   priv_jwtToken (object (fetchJwtToken cfg env a this r)) = tok"
  by (auto simp: fetchJwtToken_def Let_def split: if_splits sum.splits)

text \<open>
  C4. Memoization. When a call of \<open>fetchOAuthToken\<close> succeeds, that is, resolves to a
  token (a truthy value), every later call in a sequence of calls on the instance it
  left, whatever the network would answer, resolves to the same token and issues no
  request. \<open>fetchJwtToken\<close> behaves the same, whatever access token the later calls
  pass. (The calls run one after the other. A reply that parses but holds no token
  leaves a falsy value in the field: such a call acquires nothing and the next one
  asks again.)
\<close>

theorem token_memoization:
  "(outcome (fetchOAuthToken cfg env this r) = Resolved tok \<and> truthy tok \<longrightarrow>
      (\<forall>e \<in> set (call_sequence (\<lambda>r s. fetchOAuthToken cfg env s r)
                    (object (fetchOAuthToken cfg env this r)) rs).
         outcome e = Resolved tok \<and> requests e = []))
   \<and>
   (outcome (fetchJwtToken cfg env a this r) = Resolved jwt \<and> truthy jwt \<longrightarrow>
      (\<forall>e \<in> set (call_sequence (\<lambda>(a, r) s. fetchJwtToken cfg env a s r)
                    (object (fetchJwtToken cfg env a this r)) xs).
         outcome e = Resolved jwt \<and> requests e = []))"
proof (rule conjI)
  show "outcome (fetchOAuthToken cfg env this r) = Resolved tok \<and> truthy tok \<longrightarrow>
      (\<forall>e \<in> set (call_sequence (\<lambda>r s. fetchOAuthToken cfg env s r)
                    (object (fetchOAuthToken cfg env this r)) rs).
         outcome e = Resolved tok \<and> requests e = [])"
  proof (intro impI ballI)
    fix e
    assume ok: "outcome (fetchOAuthToken cfg env this r) = Resolved tok \<and> truthy tok"
      and e: "e \<in> set (call_sequence (\<lambda>r s. fetchOAuthToken cfg env s r)
                      (object (fetchOAuthToken cfg env this r)) rs)"
    have "priv_accessToken (object (fetchOAuthToken cfg env this r)) = tok"
      using ok access_token_success_is_cached by blast
    with ok e
      cached_access_token_calls [of "object (fetchOAuthToken cfg env this r)" e cfg env rs]
    show "outcome e = Resolved tok \<and> requests e = []" by simp
  qed
next
  show "outcome (fetchJwtToken cfg env a this r) = Resolved jwt \<and> truthy jwt \<longrightarrow>
      (\<forall>e \<in> set (call_sequence (\<lambda>(a, r) s. fetchJwtToken cfg env a s r)
                    (object (fetchJwtToken cfg env a this r)) xs).
         outcome e = Resolved jwt \<and> requests e = [])"
  proof (intro impI ballI)
    fix e
    assume ok: "outcome (fetchJwtToken cfg env a this r) = Resolved jwt \<and> truthy jwt"
      and e: "e \<in> set (call_sequence (\<lambda>(a, r) s. fetchJwtToken cfg env a s r)
                      (object (fetchJwtToken cfg env a this r)) xs)"
    have "priv_jwtToken (object (fetchJwtToken cfg env a this r)) = jwt"
      using ok session_token_success_is_cached by blast
    with ok e
      cached_session_token_calls [of "object (fetchJwtToken cfg env a this r)" e cfg env xs]
    show "outcome e = Resolved jwt \<and> requests e = []" by simp
  qed
qed

theorem token_memoization_witness:
  "(outcome (fetchOAuthToken cfg0 env0 constructor_Auth
       (Body ''{}'' (Some (JObj [(''access_token'', JStr ''ya29'')])))) = Resolved (JStr ''ya29'')
    \<and> truthy (JStr ''ya29''))
   \<and> map outcome (call_sequence (\<lambda>r s. fetchOAuthToken cfg0 env0 s r)
         (object (fetchOAuthToken cfg0 env0 constructor_Auth
            (Body ''{}'' (Some (JObj [(''access_token'', JStr ''ya29'')])))))
         [NetworkError ''down'', Body ''{}'' (Some (JObj [(''access_token'', JStr ''other'')]))])
       = [Resolved (JStr ''ya29''), Resolved (JStr ''ya29'')]
   \<and> map requests (call_sequence (\<lambda>r s. fetchOAuthToken cfg0 env0 s r)
         (object (fetchOAuthToken cfg0 env0 constructor_Auth
            (Body ''{}'' (Some (JObj [(''access_token'', JStr ''ya29'')])))))
         [NetworkError ''down'', Body ''{}'' (Some (JObj [(''access_token'', JStr ''other'')]))])
       = [[], []]
   \<and> (outcome (fetchJwtToken cfg0 env0 (JStr ''ya29'') constructor_Auth
       (Body ''{}'' (Some (JObj [(''jwt'', JStr ''g.0'')])))) = Resolved (JStr ''g.0'')
    \<and> truthy (JStr ''g.0''))
   \<and> map outcome (call_sequence (\<lambda>(a, r) s. fetchJwtToken cfg0 env0 a s r)
         (object (fetchJwtToken cfg0 env0 (JStr ''ya29'') constructor_Auth
            (Body ''{}'' (Some (JObj [(''jwt'', JStr ''g.0'')])))))
         [(JStr ''zz'', StatusError 500)])
       = [Resolved (JStr ''g.0'')]
   \<and> map requests (call_sequence (\<lambda>(a, r) s. fetchJwtToken cfg0 env0 a s r)
         (object (fetchJwtToken cfg0 env0 (JStr ''ya29'') constructor_Auth
            (Body ''{}'' (Some (JObj [(''jwt'', JStr ''g.0'')])))))
         [(JStr ''zz'', StatusError 500)])
       = [[]]"
proof -
  let ?r = "Body ''{}'' (Some (JObj [(''access_token'', JStr ''ya29'')]))"
  let ?rs = "[NetworkError ''down'', Body ''{}'' (Some (JObj [(''access_token'', JStr ''other'')]))]"
  let ?q = "Body ''{}'' (Some (JObj [(''jwt'', JStr ''g.0'')]))"
  let ?xs = "[(JStr ''zz'', StatusError 500)]"
  let ?A = "call_sequence (\<lambda>r s. fetchOAuthToken cfg0 env0 s r)
              (object (fetchOAuthToken cfg0 env0 constructor_Auth ?r)) ?rs"
  let ?J = "call_sequence (\<lambda>(a, r) s. fetchJwtToken cfg0 env0 a s r)
              (object (fetchJwtToken cfg0 env0 (JStr ''ya29'') constructor_Auth ?q)) ?xs"
  have a: "outcome (fetchOAuthToken cfg0 env0 constructor_Auth ?r) = Resolved (JStr ''ya29'')
    \<and> truthy (JStr ''ya29'')"
    by (simp add: fetchOAuthToken_def constructor_Auth_def exchange_def)
  have j: "outcome (fetchJwtToken cfg0 env0 (JStr ''ya29'') constructor_Auth ?q)
      = Resolved (JStr ''g.0'') \<and> truthy (JStr ''g.0'')"
    by (simp add: fetchJwtToken_def constructor_Auth_def exchange_def jwt_options_def)
  have la: "length ?A = Suc (Suc 0)" and lj: "length ?J = Suc 0"
    by (simp_all add: Let_def)
  have "\<forall>e \<in> set ?A. outcome e = Resolved (JStr ''ya29'') \<and> requests e = []"
    using a token_memoization [where cfg = cfg0 and env = env0 and this = constructor_Auth
        and r = ?r and tok = "JStr ''ya29''" and rs = ?rs]
    by blast
  then have A: "map outcome ?A = replicate (length ?A) (Resolved (JStr ''ya29''))"
    "map requests ?A = replicate (length ?A) []"
    by (simp_all add: map_constant)
  have "\<forall>e \<in> set ?J. outcome e = Resolved (JStr ''g.0'') \<and> requests e = []"
    using j token_memoization [where cfg = cfg0 and env = env0 and this = constructor_Auth
        and a = "JStr ''ya29''" and r = ?q and jwt = "JStr ''g.0''" and xs = ?xs]
    by blast
  then have J: "map outcome ?J = replicate (length ?J) (Resolved (JStr ''g.0''))"
    "map requests ?J = replicate (length ?J) []"
    by (simp_all add: map_constant)
  show ?thesis
    using a j A J unfolding la lj by simp
qed

lemma exchange_failure_throws:
  "exchange_failure reply \<Longrightarrow> exchange k reply = Inl (failure_exception reply)"
  by (cases reply rule: exchange_failure.cases) (simp_all add: exchange_def)

lemma null_body_throws:
  "\<exists>e. exchange k (Body t (Some JNull)) = Inl e"
  by (simp add: exchange_def)

lemma to_string_hidden_method:
  "to_string (JObj [(''toString'', JBool True)])
     = Inl (TypeError ''Cannot convert object to primitive value'')
   \<and> to_string (JArr [JStr ''a'', JNull, JObj [(''toString'', JBool True)]])
     = Inl (TypeError ''Cannot convert object to primitive value'')
   \<and> to_string (JArr [JStr ''a'', JNull, JArr [JBool False, JObj []]])
     = Inr ''a,,false,[object Object]''"
  by simp

lemma fetchJwtToken_options_throw:
  "\<not> truthy (priv_jwtToken this) \<Longrightarrow> to_string a = Inl e \<Longrightarrow>
   fetchJwtToken cfg env a this reply =
     \<lparr>outcome = Rejected e, object = this, requests = [], console = []\<rparr>"
  by (simp add: fetchJwtToken_def jwt_options_def)

text \<open>
  C5. A failing exchange is swallowed. When no token is cached and the exchange is
  attempted (for \<open>fetchJwtToken\<close>: the request could be built from the access token) and
  fails by a network error, a status outside 2xx or a body that is not JSON, then
  \<open>fetchOAuthToken\<close> and \<open>fetchJwtToken\<close> do not reject: they issue the one request,
  write one line to the console, which holds the exception the exchange raised, and
  resolve to \<open>undefined\<close>.
\<close>

theorem exchange_failure_resolves_undefined:
  "(\<not> truthy (priv_accessToken this) \<and> exchange_failure reply \<longrightarrow>
      outcome (fetchOAuthToken cfg env this reply) = Resolved JUndefined \<and>
      requests (fetchOAuthToken cfg env this reply) = [oauth_options cfg env] \<and>
      exchange ''access_token'' reply = Inl (failure_exception reply) \<and>
      console (fetchOAuthToken cfg env this reply) =
        [(''[ERROR] Failed to retrieve OAuth token from Nest API: '', failure_exception reply)])
   \<and>
   (\<not> truthy (priv_jwtToken this) \<and> jwt_options cfg env a = Inr options \<and>
    exchange_failure reply \<longrightarrow>
      outcome (fetchJwtToken cfg env a this reply) = Resolved JUndefined \<and>
      requests (fetchJwtToken cfg env a this reply) = [options] \<and>
      exchange ''jwt'' reply = Inl (failure_exception reply) \<and>
      console (fetchJwtToken cfg env a this reply) =
        [(''[ERROR] Failed to retrieve JWT token from Nest API: '', failure_exception reply)])"
proof (rule conjI)
  show "\<not> truthy (priv_accessToken this) \<and> exchange_failure reply \<longrightarrow>
      outcome (fetchOAuthToken cfg env this reply) = Resolved JUndefined \<and>
      requests (fetchOAuthToken cfg env this reply) = [oauth_options cfg env] \<and>
      exchange ''access_token'' reply = Inl (failure_exception reply) \<and>
      console (fetchOAuthToken cfg env this reply) =
        [(''[ERROR] Failed to retrieve OAuth token from Nest API: '', failure_exception reply)]"
  proof
    assume h: "\<not> truthy (priv_accessToken this) \<and> exchange_failure reply"
    then have x: "exchange ''access_token'' reply = Inl (failure_exception reply)"
      using exchange_failure_throws by blast
    with h show "outcome (fetchOAuthToken cfg env this reply) = Resolved JUndefined \<and>
      requests (fetchOAuthToken cfg env this reply) = [oauth_options cfg env] \<and>
      exchange ''access_token'' reply = Inl (failure_exception reply) \<and>
      console (fetchOAuthToken cfg env this reply) =
        [(''[ERROR] Failed to retrieve OAuth token from Nest API: '', failure_exception reply)]"
      by (simp add: fetchOAuthToken_def)
  qed
next
  show "\<not> truthy (priv_jwtToken this) \<and> jwt_options cfg env a = Inr options \<and>
    exchange_failure reply \<longrightarrow>
      outcome (fetchJwtToken cfg env a this reply) = Resolved JUndefined \<and>
      requests (fetchJwtToken cfg env a this reply) = [options] \<and>
      exchange ''jwt'' reply = Inl (failure_exception reply) \<and>
      console (fetchJwtToken cfg env a this reply) =
        [(''[ERROR] Failed to retrieve JWT token from Nest API: '', failure_exception reply)]"
  proof
    assume h: "\<not> truthy (priv_jwtToken this) \<and> jwt_options cfg env a = Inr options \<and>
      exchange_failure reply"
    then have x: "exchange ''jwt'' reply = Inl (failure_exception reply)"
      using exchange_failure_throws by blast
    with h show "outcome (fetchJwtToken cfg env a this reply) = Resolved JUndefined \<and>
      requests (fetchJwtToken cfg env a this reply) = [options] \<and>
      exchange ''jwt'' reply = Inl (failure_exception reply) \<and>
      console (fetchJwtToken cfg env a this reply) =
        [(''[ERROR] Failed to retrieve JWT token from Nest API: '', failure_exception reply)]"
      by (simp add: fetchJwtToken_def)
  qed
qed

theorem exchange_failure_resolves_undefined_witness:
  "(\<not> truthy (priv_accessToken constructor_Auth) \<and> exchange_failure (StatusError 401))
   \<and> outcome (fetchOAuthToken cfg0 env0 constructor_Auth (StatusError 401)) = Resolved JUndefined
   \<and> console (fetchOAuthToken cfg0 env0 constructor_Auth (StatusError 401)) =
        [(''[ERROR] Failed to retrieve OAuth token from Nest API: '', StatusCodeError 401)]
   \<and> (\<not> truthy (priv_jwtToken constructor_Auth) \<and>
        (\<exists>options. jwt_options cfg0 env0 (JStr ''ya29'') = Inr options) \<and>
        exchange_failure (Body ''<html>'' None))
   \<and> outcome (fetchJwtToken cfg0 env0 (JStr ''ya29'') constructor_Auth (Body ''<html>'' None))
       = Resolved JUndefined
   \<and> console (fetchJwtToken cfg0 env0 (JStr ''ya29'') constructor_Auth (Body ''<html>'' None)) =
        [(''[ERROR] Failed to retrieve JWT token from Nest API: '', SyntaxError ''<html>'')]"
proof -
  obtain options where o: "jwt_options cfg0 env0 (JStr ''ya29'') = Inr options"
    by (simp add: jwt_options_def)
  have h: "\<not> truthy (priv_accessToken constructor_Auth) \<and> exchange_failure (StatusError 401)"
    and h': "\<not> truthy (priv_jwtToken constructor_Auth) \<and>
      jwt_options cfg0 env0 (JStr ''ya29'') = Inr options \<and>
      exchange_failure (Body ''<html>'' None)"
    by (simp_all add: constructor_Auth_def o)
  have e: "failure_exception (StatusError 401) = StatusCodeError 401"
    "failure_exception (Body ''<html>'' None) = SyntaxError ''<html>''"
    by simp_all
  from h exchange_failure_resolves_undefined [where this = constructor_Auth
        and reply = "StatusError 401" and cfg = cfg0 and env = env0]
  have 1: "outcome (fetchOAuthToken cfg0 env0 constructor_Auth (StatusError 401))
        = Resolved JUndefined
      \<and> console (fetchOAuthToken cfg0 env0 constructor_Auth (StatusError 401)) =
        [(''[ERROR] Failed to retrieve OAuth token from Nest API: '',
          failure_exception (StatusError 401))]"
    by blast
  from h' exchange_failure_resolves_undefined [where this = constructor_Auth
        and reply = "Body ''<html>'' None" and cfg = cfg0 and env = env0
        and a = "JStr ''ya29''" and options = options]
  have 2: "outcome (fetchJwtToken cfg0 env0 (JStr ''ya29'') constructor_Auth
          (Body ''<html>'' None)) = Resolved JUndefined
      \<and> console (fetchJwtToken cfg0 env0 (JStr ''ya29'') constructor_Auth
          (Body ''<html>'' None)) =
        [(''[ERROR] Failed to retrieve JWT token from Nest API: '',
          failure_exception (Body ''<html>'' None))]"
    by blast
  show ?thesis
    using h h' 1 2 unfolding e by blast
qed

text \<open>
  C8. A failed exchange leaves the cache as it was. When no token is cached and the
  exchange fails, in one of the three ways above or by any other exception of the
  \<open>try\<close> block (a body that is the JSON \<open>null\<close>), the instance after the call is the
  instance before it (a field that was \<open>null\<close> is still \<open>null\<close>), and the next
  acquisition call on it issues the exchange request again (for \<open>fetchJwtToken\<close>: the
  request built from the access token that call is given).
\<close>

theorem failed_exchange_keeps_cache:
  "(\<not> truthy (priv_accessToken this) \<and>
    (exchange_failure reply \<or> exchange ''access_token'' reply = Inl e) \<longrightarrow>
      object (fetchOAuthToken cfg env this reply) = this \<and>
      requests (fetchOAuthToken cfg env (object (fetchOAuthToken cfg env this reply)) reply')
        = [oauth_options cfg env])
   \<and>
   (\<not> truthy (priv_jwtToken this) \<and>
    (exchange_failure reply \<or> exchange ''jwt'' reply = Inl e) \<and>
    jwt_options cfg env a' = Inr options' \<longrightarrow>
      object (fetchJwtToken cfg env a this reply) = this \<and>
      requests (fetchJwtToken cfg env a' (object (fetchJwtToken cfg env a this reply)) reply')
        = [options'])"
proof (rule conjI)
  show "\<not> truthy (priv_accessToken this) \<and>
    (exchange_failure reply \<or> exchange ''access_token'' reply = Inl e) \<longrightarrow>
      object (fetchOAuthToken cfg env this reply) = this \<and>
      requests (fetchOAuthToken cfg env (object (fetchOAuthToken cfg env this reply)) reply')
        = [oauth_options cfg env]"
  proof
    assume h: "\<not> truthy (priv_accessToken this) \<and>
      (exchange_failure reply \<or> exchange ''access_token'' reply = Inl e)"
    then obtain e' where "exchange ''access_token'' reply = Inl e'"
      using exchange_failure_throws by blast
    with h have same: "object (fetchOAuthToken cfg env this reply) = this"
      by (simp add: fetchOAuthToken_def)
    have "requests (fetchOAuthToken cfg env this reply') = [oauth_options cfg env]"
      using h by (simp add: fetchOAuthToken_def Let_def split: sum.splits)
    with same show "object (fetchOAuthToken cfg env this reply) = this \<and>
      requests (fetchOAuthToken cfg env (object (fetchOAuthToken cfg env this reply)) reply')
        = [oauth_options cfg env]"
      by simp
  qed
next
  show "\<not> truthy (priv_jwtToken this) \<and>
    (exchange_failure reply \<or> exchange ''jwt'' reply = Inl e) \<and>
    jwt_options cfg env a' = Inr options' \<longrightarrow>
      object (fetchJwtToken cfg env a this reply) = this \<and>
      requests (fetchJwtToken cfg env a' (object (fetchJwtToken cfg env a this reply)) reply')
        = [options']"
  proof
    assume h: "\<not> truthy (priv_jwtToken this) \<and>
      (exchange_failure reply \<or> exchange ''jwt'' reply = Inl e) \<and>
      jwt_options cfg env a' = Inr options'"
    then obtain e' where "exchange ''jwt'' reply = Inl e'"
      using exchange_failure_throws by blast
    with h have same: "object (fetchJwtToken cfg env a this reply) = this"
      by (simp add: fetchJwtToken_def split: sum.splits)
    have "requests (fetchJwtToken cfg env a' this reply') = [options']"
      using h by (simp add: fetchJwtToken_def split: sum.splits)
    with same show "object (fetchJwtToken cfg env a this reply) = this \<and>
      requests (fetchJwtToken cfg env a' (object (fetchJwtToken cfg env a this reply)) reply')
        = [options']"
      by simp
  qed
qed

theorem failed_exchange_keeps_cache_witness:
  "(\<not> truthy (priv_accessToken constructor_Auth) \<and> exchange_failure (Body ''<html>'' None))
   \<and> object (fetchOAuthToken cfg0 env0 constructor_Auth (Body ''<html>'' None))
       = constructor_Auth
   \<and> requests (fetchOAuthToken cfg0 env0
        (object (fetchOAuthToken cfg0 env0 constructor_Auth (Body ''<html>'' None)))
        (NetworkError ''down'')) = [oauth_options cfg0 env0]
   \<and> (\<not> truthy (priv_jwtToken constructor_Auth) \<and>
        exchange ''jwt'' (Body ''null'' (Some JNull))
          = Inl (TypeError ''Cannot destructure property jwt of null'') \<and>
        (\<exists>options'. jwt_options cfg0 env0 (JStr ''ya29'') = Inr options'))
   \<and> object (fetchJwtToken cfg0 env0 JUndefined constructor_Auth (Body ''null'' (Some JNull)))
       = constructor_Auth
   \<and> map http_method (requests (fetchJwtToken cfg0 env0 (JStr ''ya29'')
        (object (fetchJwtToken cfg0 env0 JUndefined constructor_Auth
           (Body ''null'' (Some JNull))))
        (NetworkError ''down''))) = [''POST'']"
proof -
  obtain options' where o: "jwt_options cfg0 env0 (JStr ''ya29'') = Inr options'"
    and m: "http_method options' = ''POST''"
    by (simp add: jwt_options_def)
  have x: "exchange ''jwt'' (Body ''null'' (Some JNull))
      = Inl (TypeError ''Cannot destructure property jwt of null'')"
    by (simp add: exchange_def)
  have h: "\<not> truthy (priv_accessToken constructor_Auth) \<and>
      (exchange_failure (Body ''<html>'' None) \<or>
       exchange ''access_token'' (Body ''<html>'' None) = Inl (SyntaxError ''<html>''))"
    and h': "\<not> truthy (priv_jwtToken constructor_Auth) \<and>
      (exchange_failure (Body ''null'' (Some JNull)) \<or>
       exchange ''jwt'' (Body ''null'' (Some JNull))
         = Inl (TypeError ''Cannot destructure property jwt of null'')) \<and>
      jwt_options cfg0 env0 (JStr ''ya29'') = Inr options'"
    by (simp_all add: constructor_Auth_def o x)
  from h failed_exchange_keeps_cache [where this = constructor_Auth
        and reply = "Body ''<html>'' None" and reply' = "NetworkError ''down''"
        and cfg = cfg0 and env = env0 and e = "SyntaxError ''<html>''"]
  have 1: "object (fetchOAuthToken cfg0 env0 constructor_Auth (Body ''<html>'' None))
       = constructor_Auth
     \<and> requests (fetchOAuthToken cfg0 env0
        (object (fetchOAuthToken cfg0 env0 constructor_Auth (Body ''<html>'' None)))
        (NetworkError ''down'')) = [oauth_options cfg0 env0]"
    by blast
  from h' failed_exchange_keeps_cache [where this = constructor_Auth
        and reply = "Body ''null'' (Some JNull)" and reply' = "NetworkError ''down''"
        and cfg = cfg0 and env = env0 and a = JUndefined and a' = "JStr ''ya29''"
        and e = "TypeError ''Cannot destructure property jwt of null''"
        and options' = options']
  have 2: "object (fetchJwtToken cfg0 env0 JUndefined constructor_Auth
        (Body ''null'' (Some JNull))) = constructor_Auth
     \<and> requests (fetchJwtToken cfg0 env0 (JStr ''ya29'')
        (object (fetchJwtToken cfg0 env0 JUndefined constructor_Auth
           (Body ''null'' (Some JNull))))
        (NetworkError ''down'')) = [options']"
    by blast
  have 3: "\<not> truthy (priv_accessToken constructor_Auth) \<and> exchange_failure (Body ''<html>'' None)"
    "\<not> truthy (priv_jwtToken constructor_Auth)"
    by (simp_all add: constructor_Auth_def)
  show ?thesis
    using 1 2 3 x o m by auto
qed

section \<open>The token exchanges\<close>

text \<open>
  C6. The requests of the two exchanges. With no access token cached, \<open>fetchOAuthToken\<close>
  issues one POST to the OAuth endpoint, form-encoded, whose form holds exactly
  \<open>refresh_token\<close>, \<open>client_id\<close> and \<open>grant_type = "refresh_token"\<close>. With no session
  token cached, \<open>fetchJwtToken\<close> called with the access token \<open>tok\<close> issues one POST
  with the headers \<open>Authorization: Bearer tok\<close> and \<open>x-goog-api-key\<close>, and a JSON body
  of \<open>expire_after "3600s"\<close>, the policy id, \<open>tok\<close> as \<open>google_oauth_access_token\<close>, and
  \<open>embed_google_oauth_access_token\<close> set to the string \<open>"true"\<close>.
\<close>

theorem exchange_request_shapes:
  "(\<not> truthy (priv_accessToken this) \<longrightarrow>
      (\<exists>rq. requests (fetchOAuthToken cfg env this reply) = [rq] \<and>
            http_method rq = ''POST'' \<and> url rq = OAUTH_URL cfg \<and>
            map_of (headers rq) ''Content-Type''
              = Some (JStr ''application/x-www-form-urlencoded; charset=UTF-8'') \<and>
            payload rq = Form [(''refresh_token'', REFRESH_TOKEN env),
                               (''client_id'', CLIENT_ID env),
                               (''grant_type'', JStr ''refresh_token'')]))
   \<and>
   (\<not> truthy (priv_jwtToken this) \<longrightarrow>
      (\<exists>rq. requests (fetchJwtToken cfg env (JStr tok) this reply) = [rq] \<and>
            http_method rq = ''POST'' \<and> url rq = JWT_TOKEN_URL cfg \<and>
            map_of (headers rq) ''Authorization'' = Some (JStr (''Bearer '' @ tok)) \<and>
            map_of (headers rq) ''x-goog-api-key'' = Some (API_KEY env) \<and>
            map_of (headers rq) ''Content-Type'' = Some (JStr ''application/json'') \<and>
            payload rq = JsonBody [(''expire_after'', JStr ''3600s''),
                                   (''policy_id'', JStr ''authproxy-oauth-policy''),
                                   (''google_oauth_access_token'', JStr tok),
                                   (''embed_google_oauth_access_token'', JStr ''true'')]))"
proof (rule conjI)
  show "\<not> truthy (priv_accessToken this) \<longrightarrow>
      (\<exists>rq. requests (fetchOAuthToken cfg env this reply) = [rq] \<and>
            http_method rq = ''POST'' \<and> url rq = OAUTH_URL cfg \<and>
            map_of (headers rq) ''Content-Type''
              = Some (JStr ''application/x-www-form-urlencoded; charset=UTF-8'') \<and>
            payload rq = Form [(''refresh_token'', REFRESH_TOKEN env),
                               (''client_id'', CLIENT_ID env),
                               (''grant_type'', JStr ''refresh_token'')])"
  proof
    assume "\<not> truthy (priv_accessToken this)"
    then have "requests (fetchOAuthToken cfg env this reply) = [oauth_options cfg env]"
      by (simp add: fetchOAuthToken_def Let_def split: sum.splits)
    then show "\<exists>rq. requests (fetchOAuthToken cfg env this reply) = [rq] \<and>
            http_method rq = ''POST'' \<and> url rq = OAUTH_URL cfg \<and>
            map_of (headers rq) ''Content-Type''
              = Some (JStr ''application/x-www-form-urlencoded; charset=UTF-8'') \<and>
            payload rq = Form [(''refresh_token'', REFRESH_TOKEN env),
                               (''client_id'', CLIENT_ID env),
                               (''grant_type'', JStr ''refresh_token'')]"
      by (simp add: oauth_options_def)
  qed
next
  show "\<not> truthy (priv_jwtToken this) \<longrightarrow>
      (\<exists>rq. requests (fetchJwtToken cfg env (JStr tok) this reply) = [rq] \<and>
            http_method rq = ''POST'' \<and> url rq = JWT_TOKEN_URL cfg \<and>
            map_of (headers rq) ''Authorization'' = Some (JStr (''Bearer '' @ tok)) \<and>
            map_of (headers rq) ''x-goog-api-key'' = Some (API_KEY env) \<and>
            map_of (headers rq) ''Content-Type'' = Some (JStr ''application/json'') \<and>
            payload rq = JsonBody [(''expire_after'', JStr ''3600s''),
                                   (''policy_id'', JStr ''authproxy-oauth-policy''),
                                   (''google_oauth_access_token'', JStr tok),
                                   (''embed_google_oauth_access_token'', JStr ''true'')])"
  proof
    have o: "jwt_options cfg env (JStr tok) =
        Inr \<lparr>http_method = ''POST'',
             url = JWT_TOKEN_URL cfg,
             headers =
               [(''x-goog-api-key'', API_KEY env),
                (''Content-Type'', JStr ''application/json''),
                (''Accept'', JStr ''application/json''),
                (''Host'', JStr ''nestauthproxyservice-pa.googleapis.com''),
                (''Authorization'', JStr (''Bearer '' @ tok))],
             payload =
               JsonBody [(''expire_after'', JStr ''3600s''),
                         (''policy_id'', JStr ''authproxy-oauth-policy''),
                         (''google_oauth_access_token'', JStr tok),
                         (''embed_google_oauth_access_token'', JStr ''true'')]\<rparr>"
      by (simp add: jwt_options_def JSON_stringify_def)
    assume "\<not> truthy (priv_jwtToken this)"
    then have "requests (fetchJwtToken cfg env (JStr tok) this reply) =
        [\<lparr>http_method = ''POST'',
          url = JWT_TOKEN_URL cfg,
          headers =
            [(''x-goog-api-key'', API_KEY env),
             (''Content-Type'', JStr ''application/json''),
             (''Accept'', JStr ''application/json''),
             (''Host'', JStr ''nestauthproxyservice-pa.googleapis.com''),
             (''Authorization'', JStr (''Bearer '' @ tok))],
          payload =
            JsonBody [(''expire_after'', JStr ''3600s''),
                      (''policy_id'', JStr ''authproxy-oauth-policy''),
                      (''google_oauth_access_token'', JStr tok),
                      (''embed_google_oauth_access_token'', JStr ''true'')]\<rparr>]"
      by (simp add: fetchJwtToken_def o split: sum.splits)
    then show "\<exists>rq. requests (fetchJwtToken cfg env (JStr tok) this reply) = [rq] \<and>
            http_method rq = ''POST'' \<and> url rq = JWT_TOKEN_URL cfg \<and>
            map_of (headers rq) ''Authorization'' = Some (JStr (''Bearer '' @ tok)) \<and>
            map_of (headers rq) ''x-goog-api-key'' = Some (API_KEY env) \<and>
            map_of (headers rq) ''Content-Type'' = Some (JStr ''application/json'') \<and>
            payload rq = JsonBody [(''expire_after'', JStr ''3600s''),
                                   (''policy_id'', JStr ''authproxy-oauth-policy''),
                                   (''google_oauth_access_token'', JStr tok),
                                   (''embed_google_oauth_access_token'', JStr ''true'')]"
      by simp
  qed
qed

theorem exchange_request_shapes_witness:
  "\<not> truthy (priv_accessToken constructor_Auth)
   \<and> (\<exists>rq. requests (fetchOAuthToken cfg0 env0 constructor_Auth (StatusError 503)) = [rq] \<and>
            http_method rq = ''POST'' \<and>
            payload rq = Form [(''refresh_token'', JStr ''refresh''),
                               (''client_id'', JStr ''client''),
                               (''grant_type'', JStr ''refresh_token'')])
   \<and> \<not> truthy (priv_jwtToken constructor_Auth)
   \<and> (\<exists>rq. requests (fetchJwtToken cfg0 env0 (JStr ''ya29'') constructor_Auth (StatusError 503))
              = [rq] \<and>
            http_method rq = ''POST'' \<and>
            map_of (headers rq) ''Authorization'' = Some (JStr ''Bearer ya29'') \<and>
            map_of (headers rq) ''x-goog-api-key'' = Some (JStr ''key'') \<and>
            payload rq = JsonBody [(''expire_after'', JStr ''3600s''),
                                   (''policy_id'', JStr ''authproxy-oauth-policy''),
                                   (''google_oauth_access_token'', JStr ''ya29''),
                                   (''embed_google_oauth_access_token'', JStr ''true'')])"
proof -
  have h: "\<not> truthy (priv_accessToken constructor_Auth)"
    and h': "\<not> truthy (priv_jwtToken constructor_Auth)"
    by (simp_all add: constructor_Auth_def)
  have e: "REFRESH_TOKEN env0 = JStr ''refresh''" "CLIENT_ID env0 = JStr ''client''"
    "API_KEY env0 = JStr ''key''" "''Bearer '' @ ''ya29'' = ''Bearer ya29''"
    by (simp_all add: env0_def)
  from exchange_request_shapes [where this = constructor_Auth and cfg = cfg0 and env = env0
        and reply = "StatusError 503" and tok = "''ya29''"] h h'
  have "(\<exists>rq. requests (fetchOAuthToken cfg0 env0 constructor_Auth (StatusError 503)) = [rq] \<and>
            http_method rq = ''POST'' \<and>
            payload rq = Form [(''refresh_token'', REFRESH_TOKEN env0),
                               (''client_id'', CLIENT_ID env0),
                               (''grant_type'', JStr ''refresh_token'')])
   \<and> (\<exists>rq. requests (fetchJwtToken cfg0 env0 (JStr ''ya29'') constructor_Auth (StatusError 503))
              = [rq] \<and>
            http_method rq = ''POST'' \<and>
            map_of (headers rq) ''Authorization'' = Some (JStr (''Bearer '' @ ''ya29'')) \<and>
            map_of (headers rq) ''x-goog-api-key'' = Some (API_KEY env0) \<and>
            payload rq = JsonBody [(''expire_after'', JStr ''3600s''),
                                   (''policy_id'', JStr ''authproxy-oauth-policy''),
                                   (''google_oauth_access_token'', JStr ''ya29''),
                                   (''embed_google_oauth_access_token'', JStr ''true'')])"
    by blast
  then show ?thesis
    unfolding e using h h' by blast
qed

text \<open>
  The flag of the session body is not the JSON boolean: the body sent differs from the
  one that carries \<open>true\<close>.
\<close>

theorem session_body_flag_counterexample:
  "map payload (requests (fetchJwtToken cfg0 env0 (JStr ''ya29'') constructor_Auth
       (NetworkError ''down'')))
   \<noteq> [JsonBody [(''expire_after'', JStr ''3600s''),
                (''policy_id'', JStr ''authproxy-oauth-policy''),
                (''google_oauth_access_token'', JStr ''ya29''),
                (''embed_google_oauth_access_token'', JBool True)]]"
  by (simp add: fetchJwtToken_def constructor_Auth_def exchange_def jwt_options_def
      JSON_stringify_def)

section \<open>The resource client\<close>

text \<open>
  C10. \<open>getEvents\<close> does not look at \<open>start\<close> and \<open>end\<close>: for any two windows the call
  has the same outcome, leaves the same instance, issues the same request (method, URL
  and headers) and logs the same lines.
\<close>

theorem getEvents_ignores_window:
  "getEvents cfg start end' this reply = getEvents cfg start2 end2 this reply"
  by (simp add: getEvents_def)

lemma getEvents_guard:
  "\<not> truthy (jwtToken this) \<Longrightarrow>
   (\<exists>msg. outcome (getEvents cfg start end' this reply) = Throw (JsError msg)) \<and>
   requests (getEvents cfg start end' this reply) = []"
  by (simp add: getEvents_def)

text \<open>
  C2. The guard on the session token. \<open>getEvents\<close> throws before any request when the
  token is falsy (lemma \<open>getEvents_guard\<close>); \<open>getLatestSnapshot\<close> has no such guard.
  On a fresh instance, whose session token is \<open>null\<close>, it raises nothing: it issues the
  GET for the latest image with the header \<open>Authorization: Basic null\<close> and resolves to
  the body that arrives.
\<close>

theorem snapshot_without_token_is_requested:
  "requests (getLatestSnapshot cfg0 constructor_Auth (Body ''jpeg'' None))
     = [\<lparr>http_method = ''GET'', url = ''https://nexusapi.example/latest'',
         headers = [(''Authorization'', JStr ''Basic null'')], payload = NoPayload\<rparr>]
   \<and> outcome (getLatestSnapshot cfg0 constructor_Auth (Body ''jpeg'' None))
     = Resolved (JStr ''jpeg'')"
  by (simp add: getLatestSnapshot_def latest_options_def constructor_Auth_def jwtToken_def
      cfg0_def)

lemma resource_fetch_keeps_tokens:
  "object (getEvents cfg start end' this reply) = this \<and>
   object (getLatestSnapshot cfg this reply) = this"
  by (simp add: getEvents_def getLatestSnapshot_def new_Promise_events_def
      this_refreshTokens_def Let_def split: sum.splits)

lemma resource_fetch_options_throw:
  "truthy (jwtToken this) \<Longrightarrow> to_string (jwtToken this) = Inl e \<Longrightarrow>
   getEvents cfg start end' this reply =
     \<lparr>outcome = Throw e, object = this, requests = [], console = []\<rparr> \<and>
   getLatestSnapshot cfg this reply =
     \<lparr>outcome = Rejected e, object = this, requests = [], console = []\<rparr>"
  by (simp add: getEvents_def getLatestSnapshot_def events_options_def latest_options_def)

lemma refreshTokens_is_no_member:
  "''refreshTokens'' \<notin> set (own_properties @ Nest_prototype @ Auth_prototype)"
  by (simp add: own_properties_def Nest_prototype_def Auth_prototype_def)

text \<open>
  C3. A failed fetch and the credentials. With both tokens cached and the network
  failing: the promise of \<open>getEvents\<close> rejects with the network error, nothing is logged
  and the instance keeps both tokens (the \<open>catch\<close> clause is not entered);
  \<open>getLatestSnapshot\<close> enters its \<open>catch\<close> clause, where the call of
  \<open>this.refreshTokens\<close> throws, so its promise rejects with that \<open>TypeError\<close> and the
  instance keeps both tokens; and the event feed delivers the error to its subscribers
  and is over, the next tick fetching and delivering nothing.
\<close>

theorem fetch_failure_resets_nothing:
  "getEvents cfg0 JNull JNull \<lparr>priv_accessToken = JStr ''ya29'', priv_jwtToken = JStr ''g.0''\<rparr>
       (NetworkError ''ECONNRESET'')
     = \<lparr>outcome = Return (Some (Rejected (RequestError ''ECONNRESET''))),
        object = \<lparr>priv_accessToken = JStr ''ya29'', priv_jwtToken = JStr ''g.0''\<rparr>,
        requests = [\<lparr>http_method = ''GET'', url = ''https://nexusapi.example/events'',
                     headers = [(''Authorization'', JStr ''Basic g.0'')],
                     payload = NoPayload\<rparr>],
        console = []\<rparr>
   \<and> outcome (getLatestSnapshot cfg0
        \<lparr>priv_accessToken = JStr ''ya29'', priv_jwtToken = JStr ''g.0''\<rparr>
        (NetworkError ''ECONNRESET''))
     = Rejected (TypeError ''this.refreshTokens is not a function'')
   \<and> object (getLatestSnapshot cfg0
        \<lparr>priv_accessToken = JStr ''ya29'', priv_jwtToken = JStr ''g.0''\<rparr>
        (NetworkError ''ECONNRESET''))
     = \<lparr>priv_accessToken = JStr ''ya29'', priv_jwtToken = JStr ''g.0''\<rparr>
   \<and> events_ticks cfg0 \<lparr>priv_accessToken = JStr ''ya29'', priv_jwtToken = JStr ''g.0''\<rparr>
        new_feed [NetworkError ''ECONNRESET'', Body ''[1]'' (Some (JArr [JStr ''e1'']))]
     = Some [[OnError (RequestError ''ECONNRESET'')], []]"
  by (simp add: getEvents_def getLatestSnapshot_def new_Promise_events_def
      this_refreshTokens_def jwtToken_def events_tick_def new_feed_def events_options_def
      latest_options_def cfg0_def)

section \<open>The event feed\<close>

lemma comparator_raises:
  "comparator prevEvents currEvents = Inl (ReferenceError ''lastEvents is not defined'')"
  by (simp add: comparator_def resolve_identifier_def)

lemma later_tick_delivers_error:
  "outcome (getEvents cfg JNull JNull this reply) = Return (Some (Resolved (JArr events))) \<Longrightarrow>
   \<not> ended f \<Longrightarrow> hasKey f \<Longrightarrow>
   \<exists>t. events_tick cfg this f reply = Some t \<and>
       delivered t = [OnError (ReferenceError ''lastEvents is not defined'')] \<and>
       ended (feed_after t)"
  by (simp add: events_tick_def distinctUntilChanged_def comparator_raises Let_def)

text \<open>
  C1. Two consecutive ticks of the event feed. The first tick fetches \<open>[e1, e2]\<close> and
  delivers \<open>e2\<close>. The second fetches \<open>[e1, e2, e3]\<close>, a sequence of another length:
  the comparator reads the unbound name \<open>lastEvents\<close>, and the subscribers receive
  that \<open>ReferenceError\<close> on their error channel instead of \<open>e3\<close>.
\<close>

theorem events_second_tick_raises:
  "events_ticks cfg0 \<lparr>priv_accessToken = JStr ''ya29'', priv_jwtToken = JStr ''g.0''\<rparr> new_feed
     [Body ''[1,2]'' (Some (JArr [JStr ''e1'', JStr ''e2''])),
      Body ''[1,2,3]'' (Some (JArr [JStr ''e1'', JStr ''e2'', JStr ''e3'']))]
   = Some [[OnNext (JStr ''e2'')],
           [OnError (ReferenceError ''lastEvents is not defined'')]]"
  by (simp add: events_tick_def getEvents_def new_Promise_events_def jwtToken_def
      distinctUntilChanged_def comparator_raises new_feed_def map_newest_def js_index_def
      events_options_def)

text \<open>
  C9. The projection of an empty sequence. When a tick of a live feed fetches the empty
  array (the promise of \<open>getEvents\<close> resolves to it) and \<open>distinctUntilChanged\<close> lets it
  pass, the projection reads index \<open>-1\<close> and the subscribers receive \<open>undefined\<close>;
  nothing between the filter and the projection excludes the empty array.
\<close>

theorem empty_events_deliver_undefined:
  "\<not> ended f \<Longrightarrow>
   outcome (getEvents cfg JNull JNull this reply) = Return (Some (Resolved (JArr []))) \<Longrightarrow>
   fst (distinctUntilChanged f []) = Inr True \<Longrightarrow>
   \<exists>t. events_tick cfg this f reply = Some t \<and> delivered t = [OnNext JUndefined]"
proof -
  assume live: "\<not> ended f"
    and ev: "outcome (getEvents cfg JNull JNull this reply) = Return (Some (Resolved (JArr [])))"
    and pass: "fst (distinctUntilChanged f []) = Inr True"
  obtain f' where d: "distinctUntilChanged f [] = (Inr True, f')"
    using pass by (cases "distinctUntilChanged f []") simp
  have "map_newest [] = JUndefined"
    by (simp add: map_newest_def js_index_def)
  then show ?thesis
    using live by (simp add: events_tick_def ev d Let_def)
qed

theorem empty_events_deliver_undefined_witness:
  "\<not> ended new_feed
   \<and> outcome (getEvents cfg0 JNull JNull
        \<lparr>priv_accessToken = JStr ''ya29'', priv_jwtToken = JStr ''g.0''\<rparr>
        (Body ''[]'' (Some (JArr [])))) = Return (Some (Resolved (JArr [])))
   \<and> fst (distinctUntilChanged new_feed []) = Inr True
   \<and> (\<exists>t. events_tick cfg0 \<lparr>priv_accessToken = JStr ''ya29'', priv_jwtToken = JStr ''g.0''\<rparr>
             new_feed (Body ''[]'' (Some (JArr []))) = Some t \<and>
           delivered t = [OnNext JUndefined])"
proof -
  have h1: "\<not> ended new_feed" by (simp add: new_feed_def)
  have h2: "outcome (getEvents cfg0 JNull JNull
        \<lparr>priv_accessToken = JStr ''ya29'', priv_jwtToken = JStr ''g.0''\<rparr>
        (Body ''[]'' (Some (JArr [])))) = Return (Some (Resolved (JArr [])))"
    by (simp add: getEvents_def jwtToken_def events_options_def new_Promise_events_def)
  have h3: "fst (distinctUntilChanged new_feed []) = Inr True"
    by (simp add: distinctUntilChanged_def new_feed_def)
  show ?thesis
    using h1 h2 h3 empty_events_deliver_undefined [OF h1 h2 h3] by blast
qed

end
